theory Spec2Isabelle
  imports Complex_Main
begin

section \<open>Python values\<close>

text \<open>
  The program is dynamically typed, and its validation functions decide by the run-time
  type of their argument. The values that matter are the numbers (\<open>bool\<close> is a subclass
  of \<open>int\<close> in Python, so a boolean is a number), strings and \<open>None\<close>.
  A Python \<open>float\<close> is modelled by the real number it denotes: rounding, infinities and
  NaN are outside this model. Python integers are unbounded, as \<open>int\<close> is.
\<close>

datatype number = NBool bool | NInt int | NFloat real

datatype pyval = PNum number | PStr string | PNone

text \<open>The numeric value of a number: \<open>True\<close> is 1 and \<open>False\<close> is 0.\<close>

fun num_val :: "number \<Rightarrow> real" where
  "num_val (NBool b) = (if b then 1 else 0)"
| "num_val (NInt i) = real_of_int i"
| "num_val (NFloat x) = x"

text \<open>The integer a \<open>bool\<close> or \<open>int\<close> stands for; a float has none.\<close>

fun as_int :: "number \<Rightarrow> int option" where
  "as_int (NBool b) = Some (if b then 1 else 0)"
| "as_int (NInt i) = Some i"
| "as_int (NFloat x) = None"

text \<open>
  Python's \<open>==\<close> on numbers compares the numeric values (\<open>True == 1\<close>, \<open>1 == 1.0\<close>).
\<close>

definition num_eq :: "number \<Rightarrow> number \<Rightarrow> bool" where
  "num_eq a b = (num_val a = num_val b)"

text \<open>
  Python's \<open>+\<close>, \<open>-\<close> and \<open>*\<close> on numbers: the result is an \<open>int\<close> when both operands
  are \<open>int\<close> or \<open>bool\<close>, and a \<open>float\<close> as soon as one operand is a \<open>float\<close>.
\<close>

definition num_add :: "number \<Rightarrow> number \<Rightarrow> number" where
  "num_add a b =
     (case (as_int a, as_int b) of
        (Some i, Some j) \<Rightarrow> NInt (i + j)
      | _ \<Rightarrow> NFloat (num_val a + num_val b))"

definition num_sub :: "number \<Rightarrow> number \<Rightarrow> number" where
  "num_sub a b =
     (case (as_int a, as_int b) of
        (Some i, Some j) \<Rightarrow> NInt (i - j)
      | _ \<Rightarrow> NFloat (num_val a - num_val b))"

definition num_mul :: "number \<Rightarrow> number \<Rightarrow> number" where
  "num_mul a b =
     (case (as_int a, as_int b) of
        (Some i, Some j) \<Rightarrow> NInt (i * j)
      | _ \<Rightarrow> NFloat (num_val a * num_val b))"

section \<open>Exceptions\<close>

text \<open>
  The exception classes of the program, and the built-in \<open>ValueError\<close> that the
  validation functions raise. The message of an exception is not modelled.
\<close>

datatype error =
    ValueError
  | AsientoReservadoError
  | AsientoNoReservadoError
  | AsientoNoEncontradoError
  | AsientoDuplicadoError

section \<open>Validation and pricing\<close>

text \<open>
  \<open>validar_entrada\<close> raises \<open>ValueError\<close> unless the value is an \<open>int\<close> or a \<open>float\<close>
  (hence also a \<open>bool\<close>) greater than zero. The source returns nothing; the model returns
  the accepted value at type \<open>number\<close>, which is what the callers go on to store.
\<close>

fun validar_entrada :: "pyval \<Rightarrow> error + number" where
  "validar_entrada (PNum n) = (if num_val n \<le> 0 then Inl ValueError else Inr n)"
| "validar_entrada (PStr s) = Inl ValueError"
| "validar_entrada PNone = Inl ValueError"

text \<open>\<open>validar_tipo_booleano\<close> raises \<open>ValueError\<close> unless the value is a \<open>bool\<close>.\<close>

fun validar_tipo_booleano :: "pyval \<Rightarrow> error + bool" where
  "validar_tipo_booleano (PNum (NBool b)) = Inr b"
| "validar_tipo_booleano v = Inl ValueError"

text \<open>
  \<open>calcular_precio\<close>: the discount starts as the integer 0, each flag adds its float
  rate, and the price is \<open>precio_base * (1 - descuento)\<close>. Its only caller passes flags
  that \<open>validar_tipo_booleano\<close> has accepted, so the flags are booleans here.
\<close>

definition calcular_precio :: "number \<Rightarrow> bool \<Rightarrow> bool \<Rightarrow> number" where
  "calcular_precio precio_base dia_espectador es_mayor_65 =
     (let descuento = NInt 0;
          descuento = (if dia_espectador then num_add descuento (NFloat (20 / 100)) else descuento);
          descuento = (if es_mayor_65 then num_add descuento (NFloat (30 / 100)) else descuento)
      in num_mul precio_base (num_sub (NInt 1) descuento))"

section \<open>Asiento\<close>

record asiento =
  numero :: number
  fila :: number
  reservado :: bool
  precio_base :: number
  precio_actual :: number

text \<open>The constructor: three validations in the source's order, then the fields.\<close>

definition Asiento_init :: "pyval \<Rightarrow> pyval \<Rightarrow> pyval \<Rightarrow> error + asiento" where
  "Asiento_init numero_arg fila_arg precio_arg =
     (case validar_entrada numero_arg of
        Inl e \<Rightarrow> Inl e
      | Inr n \<Rightarrow>
          (case validar_entrada fila_arg of
             Inl e \<Rightarrow> Inl e
           | Inr f \<Rightarrow>
               (case validar_entrada precio_arg of
                  Inl e \<Rightarrow> Inl e
                | Inr p \<Rightarrow>
                    Inr \<lparr>numero = n, fila = f, reservado = False,
                         precio_base = p, precio_actual = p\<rparr>)))"

text \<open>
  The methods mutate the object; the model returns the exception raised, if any, together
  with the object as the call leaves it.
\<close>

definition reservar :: "asiento \<Rightarrow> pyval \<Rightarrow> pyval \<Rightarrow> error option \<times> asiento" where
  "reservar a es_mayor_65 dia_espectador =
     (case validar_tipo_booleano es_mayor_65 of
        Inl e \<Rightarrow> (Some e, a)
      | Inr m \<Rightarrow>
          (case validar_tipo_booleano dia_espectador of
             Inl e \<Rightarrow> (Some e, a)
           | Inr d \<Rightarrow>
               if reservado a then (Some AsientoReservadoError, a)
               else (None, a\<lparr>precio_actual := calcular_precio (precio_base a) d m,
                              reservado := True\<rparr>)))"

definition Asiento_cancelar_reserva :: "asiento \<Rightarrow> error option \<times> asiento" where
  "Asiento_cancelar_reserva a =
     (if \<not> reservado a then (Some AsientoNoReservadoError, a)
      else (None, a\<lparr>reservado := False, precio_actual := precio_base a\<rparr>))"

section \<open>SalaCine\<close>

record sala =
  sala_precio_base :: number
  descuento_dia :: number
  descuento_mayor_65 :: number
  asientos :: "asiento list"


text \<open>The test \<open>asiento.numero == numero and asiento.fila == fila\<close> of both searches.\<close>

definition coincide :: "number \<Rightarrow> number \<Rightarrow> asiento \<Rightarrow> bool" where
  "coincide n f a = (num_eq (numero a) n \<and> num_eq (fila a) f)"

definition agregar_asiento :: "sala \<Rightarrow> pyval \<Rightarrow> pyval \<Rightarrow> error option \<times> sala" where
  "agregar_asiento s numero_arg fila_arg =
     (case validar_entrada numero_arg of
        Inl e \<Rightarrow> (Some e, s)
      | Inr n \<Rightarrow>
          (case validar_entrada fila_arg of
             Inl e \<Rightarrow> (Some e, s)
           | Inr f \<Rightarrow>
               if list_ex (coincide n f) (asientos s) then (Some AsientoDuplicadoError, s)
               else (case Asiento_init numero_arg fila_arg (PNum (sala_precio_base s)) of
                       Inl e \<Rightarrow> (Some e, s)
                     | Inr nuevo \<Rightarrow> (None, s\<lparr>asientos := asientos s @ [nuevo]\<rparr>))))"

text \<open>
  The loop of \<open>buscar_asiento\<close> returns the first matching object. The seats of a room are
  distinct objects, so a reference to a seat is its position in the list.
\<close>

fun buscar_bucle :: "number \<Rightarrow> number \<Rightarrow> asiento list \<Rightarrow> nat option" where
  "buscar_bucle n f [] = None"
| "buscar_bucle n f (a # rest) =
     (if coincide n f a then Some 0
      else (case buscar_bucle n f rest of None \<Rightarrow> None | Some i \<Rightarrow> Some (Suc i)))"

definition buscar_asiento :: "sala \<Rightarrow> pyval \<Rightarrow> pyval \<Rightarrow> error + nat" where
  "buscar_asiento s numero_arg fila_arg =
     (case validar_entrada numero_arg of
        Inl e \<Rightarrow> Inl e
      | Inr n \<Rightarrow>
          (case validar_entrada fila_arg of
             Inl e \<Rightarrow> Inl e
           | Inr f \<Rightarrow>
               (case buscar_bucle n f (asientos s) of
                  None \<Rightarrow> Inl AsientoNoEncontradoError
                | Some i \<Rightarrow> Inr i)))"

definition reservar_asiento ::
  "sala \<Rightarrow> pyval \<Rightarrow> pyval \<Rightarrow> pyval \<Rightarrow> pyval \<Rightarrow> error option \<times> sala" where
  "reservar_asiento s numero_arg fila_arg es_mayor_65 dia_espectador =
     (case validar_tipo_booleano es_mayor_65 of
        Inl e \<Rightarrow> (Some e, s)
      | Inr m \<Rightarrow>
          (case validar_tipo_booleano dia_espectador of
             Inl e \<Rightarrow> (Some e, s)
           | Inr d \<Rightarrow>
               (case buscar_asiento s numero_arg fila_arg of
                  Inl e \<Rightarrow> (Some e, s)
                | Inr i \<Rightarrow>
                    (case reservar (asientos s ! i) es_mayor_65 dia_espectador of
                       (r, a') \<Rightarrow> (r, s\<lparr>asientos := (asientos s)[i := a']\<rparr>)))))"

definition SalaCine_cancelar_reserva :: "sala \<Rightarrow> pyval \<Rightarrow> pyval \<Rightarrow> error option \<times> sala" where
  "SalaCine_cancelar_reserva s numero_arg fila_arg =
     (case buscar_asiento s numero_arg fila_arg of
        Inl e \<Rightarrow> (Some e, s)
      | Inr i \<Rightarrow>
          (case Asiento_cancelar_reserva (asientos s ! i) of
             (r, a') \<Rightarrow> (r, s\<lparr>asientos := (asientos s)[i := a']\<rparr>)))"

section \<open>Text\<close>

text \<open>
  Strings are lists of characters; the characters that occur in the file format are ASCII.
  The content of a file is the text as Python sees it, with the line feed as the line end.
\<close>

definition nl :: char where
  "nl = CHR 0x0A"

definition digit_char :: "nat \<Rightarrow> char" where
  "digit_char d = char_of (48 + d)"

definition is_digit :: "char \<Rightarrow> bool" where
  "is_digit c = (let n = (of_char c :: nat) in 48 \<le> n \<and> n \<le> 57)"

definition digit_val :: "char \<Rightarrow> nat" where
  "digit_val c = of_char c - 48"

text \<open>The whitespace that \<open>str.strip\<close> and \<open>int\<close> strip, within ASCII.\<close>

definition is_space :: "char \<Rightarrow> bool" where
  "is_space c = (let n = (of_char c :: nat) in (9 \<le> n \<and> n \<le> 13) \<or> (28 \<le> n \<and> n \<le> 32))"

text \<open>\<open>str(n)\<close> for a natural number and for an integer: decimal digits, with a sign.\<close>

function str_nat :: "nat \<Rightarrow> string" where
  "str_nat n = (if n < 10 then [digit_char n] else str_nat (n div 10) @ [digit_char (n mod 10)])"
  by pat_completeness auto
termination
  by (relation "measure (\<lambda>n. n)") auto

declare str_nat.simps [simp del]

definition str_int :: "int \<Rightarrow> string" where
  "str_int i = (if i < 0 then CHR ''-'' # str_nat (nat (- i)) else str_nat (nat i))"

text \<open>
  \<open>str\<close> of a number, as an f-string field without a format renders it. The text of a
  \<open>float\<close> (its shortest representation that reads back as the same float) depends on the
  binary representation, so it is a parameter of the model.
\<close>

fun str_number :: "(real \<Rightarrow> string) \<Rightarrow> number \<Rightarrow> string" where
  "str_number float_str (NBool b) = (if b then ''True'' else ''False'')"
| "str_number float_str (NInt i) = str_int i"
| "str_number float_str (NFloat x) = float_str x"

text \<open>
  The format \<open>.2f\<close>: the value rounded to hundredths, ties to the even neighbour, written
  with all its integer digits, a point and two fractional digits. An \<open>int\<close> or a \<open>bool\<close>
  is converted to \<open>float\<close> first, so the function takes the numeric value.
\<close>

definition round_half_even :: "real \<Rightarrow> int" where
  "round_half_even m =
     (let n = \<lfloor>m\<rfloor>; r = m - of_int n
      in if r < 1 / 2 then n
         else if 1 / 2 < r then n + 1
         else if even n then n else n + 1)"

definition format_2f :: "real \<Rightarrow> string" where
  "format_2f x =
     (let q = nat (round_half_even (\<bar>x\<bar> * 100))
      in (if x < 0 then [CHR ''-''] else [])
         @ str_nat (q div 100) @ [CHR ''.'']
         @ [digit_char (q div 10 mod 10), digit_char (q mod 10)])"

text \<open>Iterating over a text file yields its lines, each with its line end if it has one.\<close>

fun lineas :: "string \<Rightarrow> string list" where
  "lineas [] = []"
| "lineas (c # cs) =
     (if c = nl then [c] # lineas cs
      else (case lineas cs of [] \<Rightarrow> [[c]] | l # ls \<Rightarrow> (c # l) # ls))"

definition strip :: "string \<Rightarrow> string" where
  "strip s = rev (dropWhile is_space (rev (dropWhile is_space s)))"

text \<open>\<open>s.split(',')\<close>: the fields between the commas; never an empty list.\<close>

fun split_coma :: "string \<Rightarrow> string list" where
  "split_coma [] = [[]]"
| "split_coma (c # cs) =
     (if c = CHR '','' then [] # split_coma cs
      else (case split_coma cs of [] \<Rightarrow> [[c]] | l # ls \<Rightarrow> (c # l) # ls))"

text \<open>
  \<open>int(s)\<close> for a string: surrounding whitespace is stripped, a sign may come first, and
  the rest must be decimal digits, where single underscores may separate digits.
  Anything else raises \<open>ValueError\<close>.
\<close>

fun digitos_ok :: "string \<Rightarrow> bool" where
  "digitos_ok [] = False"
| "digitos_ok [c] = is_digit c"
| "digitos_ok (c # d # r) =
     (is_digit c \<and> (if d = CHR ''_'' then digitos_ok r else digitos_ok (d # r)))"

definition valor_digitos :: "string \<Rightarrow> nat" where
  "valor_digitos ds = foldl (\<lambda>acc c. 10 * acc + digit_val c) 0 (filter (\<lambda>c. c \<noteq> CHR ''_'') ds)"

definition py_int :: "string \<Rightarrow> error + int" where
  "py_int s =
     (let t = strip s;
          (neg, body) =
            (case t of
               [] \<Rightarrow> (False, [])
             | c # r \<Rightarrow>
                 if c = CHR ''-'' then (True, r)
                 else if c = CHR ''+'' then (False, r)
                 else (False, t))
      in if digitos_ok body
         then Inr (if neg then - int (valor_digitos body) else int (valor_digitos body))
         else Inl ValueError)"

section \<open>Saving and loading\<close>

text \<open>
  \<open>guardar_estado\<close> opens the file for writing, which empties it, and writes one line for
  each seat; the model returns the content of the file. Errors of the file system are
  not modelled.
\<close>

fun guardar_bucle :: "(real \<Rightarrow> string) \<Rightarrow> asiento list \<Rightarrow> string \<Rightarrow> string" where
  "guardar_bucle float_str [] f = f"
| "guardar_bucle float_str (a # rest) f =
     (let estado = (if reservado a then ''Reservado'' else ''Disponible'')
      in guardar_bucle float_str rest
           (f @ str_number float_str (fila a) @ '','' @ str_number float_str (numero a) @ '',''
              @ estado @ '','' @ format_2f (num_val (precio_actual a)) @ [nl]))"

definition guardar_estado :: "(real \<Rightarrow> string) \<Rightarrow> sala \<Rightarrow> string" where
  "guardar_estado float_str s = guardar_bucle float_str (asientos s) []"

text \<open>
  One turn of the loop of \<open>cargar_estado\<close>. Unpacking into four names raises \<open>ValueError\<close>
  unless the line has exactly four fields; \<open>int(numero)\<close> is evaluated before \<open>int(fila)\<close>.
  The seat is appended only when nothing was raised.
\<close>

definition cargar_linea :: "sala \<Rightarrow> string \<Rightarrow> error option \<times> sala" where
  "cargar_linea s linea =
     (case split_coma (strip linea) of
        [fila_s, numero_s, estado, precio] \<Rightarrow>
          (case py_int numero_s of
             Inl e \<Rightarrow> (Some e, s)
           | Inr n \<Rightarrow>
               (case py_int fila_s of
                  Inl e \<Rightarrow> (Some e, s)
                | Inr f \<Rightarrow>
                    (case Asiento_init (PNum (NInt n)) (PNum (NInt f)) (PNum (sala_precio_base s)) of
                       Inl e \<Rightarrow> (Some e, s)
                     | Inr nuevo \<Rightarrow>
                         (case (if estado = ''Reservado''
                                then reservar nuevo (PNum (NBool False)) (PNum (NBool False))
                                else (None, nuevo)) of
                            (Some e, nuevo') \<Rightarrow> (Some e, s)
                          | (None, nuevo') \<Rightarrow> (None, s\<lparr>asientos := asientos s @ [nuevo']\<rparr>)))))
      | _ \<Rightarrow> (Some ValueError, s))"

text \<open>The loop stops at the first exception; the seats appended before it stay.\<close>

fun cargar_bucle :: "sala \<Rightarrow> string list \<Rightarrow> error option \<times> sala" where
  "cargar_bucle s [] = (None, s)"
| "cargar_bucle s (linea # rest) =
     (case cargar_linea s linea of
        (Some e, s') \<Rightarrow> (Some e, s')
      | (None, s') \<Rightarrow> cargar_bucle s' rest)"

definition cargar_estado :: "sala \<Rightarrow> string \<Rightarrow> error option \<times> sala" where
  "cargar_estado s contenido = cargar_bucle s (lineas contenido)"

section \<open>Sequences of operations\<close>

text \<open>
  A caller may invoke the methods of a seat in any order and with any arguments; a call
  that raises leaves the object as the exception found it.
\<close>

datatype asiento_op = OpReservar pyval pyval | OpCancelar

fun asiento_paso :: "asiento \<Rightarrow> asiento_op \<Rightarrow> asiento" where
  "asiento_paso a (OpReservar es_mayor_65 dia_espectador) = snd (reservar a es_mayor_65 dia_espectador)"
| "asiento_paso a OpCancelar = snd (Asiento_cancelar_reserva a)"

text \<open>
  The methods of a room that change it. \<open>buscar_asiento\<close>, \<open>mostrar_asientos\<close> and
  \<open>guardar_estado\<close> only read the room.
\<close>

datatype sala_op =
    OpAgregar pyval pyval
  | OpReservarAsiento pyval pyval pyval pyval
  | OpCancelarReserva pyval pyval
  | OpCargar string

fun sala_paso :: "sala \<Rightarrow> sala_op \<Rightarrow> sala" where
  "sala_paso s (OpAgregar n f) = snd (agregar_asiento s n f)"
| "sala_paso s (OpReservarAsiento n f m d) = snd (reservar_asiento s n f m d)"
| "sala_paso s (OpCancelarReserva n f) = snd (SalaCine_cancelar_reserva s n f)"
| "sala_paso s (OpCargar contenido) = snd (cargar_estado s contenido)"

fun es_carga :: "sala_op \<Rightarrow> bool" where
  "es_carga (OpCargar contenido) = True"
| "es_carga op = False"

section \<open>Vocabulary of the properties\<close>

text \<open>No two seats of the list have the same row and the same number, under Python's \<open>==\<close>.\<close>

definition sin_duplicados :: "asiento list \<Rightarrow> bool" where
  "sin_duplicados xs = distinct (map (\<lambda>a. (num_val (fila a), num_val (numero a))) xs)"



text \<open>
  A seat whose row and number are of type \<open>int\<close> proper (not \<open>bool\<close>, not \<open>float\<close>) and
  greater than zero, as the constructor requires of every seat.
\<close>

fun es_entero :: "number \<Rightarrow> bool" where
  "es_entero (NInt i) = True"
| "es_entero n = False"

definition asiento_entero :: "asiento \<Rightarrow> bool" where
  "asiento_entero a = (es_entero (numero a) \<and> es_entero (fila a)
     \<and> 0 < num_val (numero a) \<and> 0 < num_val (fila a))"

text \<open>
  What \<open>cargar_estado\<close> makes of the saved line of a seat, in a room of base price \<open>p\<close>.
\<close>

definition recargado :: "number \<Rightarrow> asiento \<Rightarrow> asiento" where
  "recargado p a =
     \<lparr>numero = numero a, fila = fila a, reservado = reservado a, precio_base = p,
      precio_actual = (if reservado a then calcular_precio p False False else p)\<rparr>"


text \<open>
  The frame of an operation on the seat of number \<open>n\<close> in row \<open>f\<close> that raised \<open>r\<close> (or
  nothing) and took the room from \<open>s\<close> to \<open>s'\<close>: the configuration, the length of the seat
  list and the identity of the seat at every position are unchanged; a call that raised
  changed nothing; and if some seat changed, it matches \<open>(f, n)\<close> and no other seat did.
\<close>

definition cambia_solo :: "pyval \<Rightarrow> pyval \<Rightarrow> error option \<Rightarrow> sala \<Rightarrow> sala \<Rightarrow> bool" where
  "cambia_solo n f r s s' =
     (sala_precio_base s' = sala_precio_base s \<and> descuento_dia s' = descuento_dia s
      \<and> descuento_mayor_65 s' = descuento_mayor_65 s
      \<and> length (asientos s') = length (asientos s)
      \<and> map numero (asientos s') = map numero (asientos s)
      \<and> map fila (asientos s') = map fila (asientos s)
      \<and> (r \<noteq> None \<longrightarrow> s' = s)
      \<and> (\<forall>j < length (asientos s). asientos s' ! j \<noteq> asientos s ! j \<longrightarrow>
            (\<exists>nn ff. validar_entrada n = Inr nn \<and> validar_entrada f = Inr ff
                \<and> coincide nn ff (asientos s ! j))
            \<and> (\<forall>k < length (asientos s). k \<noteq> j \<longrightarrow> asientos s' ! k = asientos s ! k)))"

text \<open>
  The line of the file for one seat, as \<open>guardar_estado\<close> composes it.
\<close>

definition linea_de :: "(real \<Rightarrow> string) \<Rightarrow> asiento \<Rightarrow> string" where
  "linea_de float_str a =
     str_number float_str (fila a) @ '','' @ str_number float_str (numero a) @ '',''
       @ (if reservado a then ''Reservado'' else ''Disponible'') @ '',''
       @ format_2f (num_val (precio_actual a)) @ [nl]"

section \<open>Example values\<close>

text \<open>
  The text of a float whose value is a whole number of at most sixteen digits, such as
  \<open>10.0\<close>; the examples render no other float.
\<close>

definition float_str_entero :: "real \<Rightarrow> string" where
  "float_str_entero x = str_int \<lfloor>x\<rfloor> @ ''.0''"

text \<open>The room \<open>SalaCine(10.0)\<close> of the program's \<open>main\<close>.\<close>

definition sala_10 :: sala where
  "sala_10 = \<lparr>sala_precio_base = NFloat 10, descuento_dia = NFloat (20 / 100),
              descuento_mayor_65 = NFloat (30 / 100), asientos = []\<rparr>"

text \<open>The seat \<open>Asiento(1, 1, 10.0)\<close>, and the seat of number 2 in row 1.\<close>

definition asiento_libre :: asiento where
  "asiento_libre = \<lparr>numero = NInt 1, fila = NInt 1, reservado = False,
                    precio_base = NFloat 10, precio_actual = NFloat 10\<rparr>"

definition asiento_dos :: asiento where
  "asiento_dos = \<lparr>numero = NInt 2, fila = NInt 1, reservado = False,
                  precio_base = NFloat 10, precio_actual = NFloat 10\<rparr>"

text \<open>The seat that \<open>agregar_asiento(True, 1)\<close> creates in the room \<open>SalaCine(10.0)\<close>.\<close>

definition asiento_true :: asiento where
  "asiento_true = \<lparr>numero = NBool True, fila = NInt 1, reservado = False,
                   precio_base = NFloat 10, precio_actual = NFloat 10\<rparr>"

text \<open>
  The room of \<open>main\<close> after its two \<open>agregar_asiento\<close> calls, and after it reserved the seat
  of number 1 in row 1 with both discounts.
\<close>

definition sala_main :: sala where
  "sala_main = sala_10\<lparr>asientos := [asiento_libre, asiento_dos]\<rparr>"

definition sala_main_reservada :: sala where
  "sala_main_reservada =
     sala_10\<lparr>asientos := [asiento_libre\<lparr>precio_actual := NFloat 5, reservado := True\<rparr>,
                          asiento_dos]\<rparr>"

section \<open>Seats: pricing, the reservation toggle and the price invariant\<close>

lemma calcular_precio_val:
  "num_val (calcular_precio p d m) = num_val p * (1 - (0.20 * of_bool d + 0.30 * of_bool m))"
  by (cases p) (simp_all add: calcular_precio_def num_add_def num_sub_def num_mul_def)

lemma Asiento_init_Inr:
  "Asiento_init n f p = Inr a \<Longrightarrow>
     PNum (numero a) = n \<and> PNum (fila a) = f \<and> PNum (precio_base a) = p
     \<and> \<not> reservado a \<and> precio_actual a = precio_base a
     \<and> 0 < num_val (numero a) \<and> 0 < num_val (fila a) \<and> 0 < num_val (precio_base a)"
  by (cases n; cases f; cases p) (auto simp: Asiento_init_def split: if_splits)

lemma reservar_campos:
  "reservar a m d = (r, a') \<Longrightarrow>
     numero a' = numero a \<and> fila a' = fila a \<and> precio_base a' = precio_base a
     \<and> (r \<noteq> None \<longrightarrow> a' = a)"
  by (auto simp: reservar_def split: sum.splits if_splits)

lemma cancelar_campos:
  "Asiento_cancelar_reserva a = (r, a') \<Longrightarrow>
     numero a' = numero a \<and> fila a' = fila a \<and> precio_base a' = precio_base a
     \<and> (r \<noteq> None \<longrightarrow> a' = a)"
  by (auto simp: Asiento_cancelar_reserva_def split: if_splits)



text \<open>
  Claim C5. With boolean flags, \<open>reservar\<close> raises \<open>AsientoReservadoError\<close> exactly when the
  seat is reserved at the call, and raises nothing otherwise; \<open>cancelar_reserva\<close> raises
  \<open>AsientoNoReservadoError\<close> exactly when the seat is not reserved at the call, and nothing
  otherwise. This holds for every state of a seat, so whatever happened to it before.
\<close>

theorem errores_de_estado:
  "(fst (reservar a (PNum (NBool m)) (PNum (NBool d))) = Some AsientoReservadoError) = reservado a
   \<and> (fst (reservar a (PNum (NBool m)) (PNum (NBool d))) = None) = (\<not> reservado a)
   \<and> (fst (Asiento_cancelar_reserva a) = Some AsientoNoReservadoError) = (\<not> reservado a)
   \<and> (fst (Asiento_cancelar_reserva a) = None) = reservado a"
  by (simp add: reservar_def Asiento_cancelar_reserva_def)

theorem errores_de_estado_witness:
  "fst (reservar asiento_libre (PNum (NBool True)) (PNum (NBool False))) = None
   \<and> fst (Asiento_cancelar_reserva asiento_libre) = Some AsientoNoReservadoError"
  using errores_de_estado [of asiento_libre True False]
  by (simp add: asiento_libre_def)



lemma asiento_paso_inv:
  "(\<not> reservado a \<longrightarrow> precio_actual a = precio_base a) \<Longrightarrow>
   (\<not> reservado (asiento_paso a op) \<longrightarrow>
      precio_actual (asiento_paso a op) = precio_base (asiento_paso a op))"
  by (cases op) (auto simp: reservar_def Asiento_cancelar_reserva_def split: sum.splits)

lemma foldl_paso_inv:
  "(\<not> reservado a \<longrightarrow> precio_actual a = precio_base a) \<Longrightarrow>
   (\<not> reservado (foldl asiento_paso a ops) \<longrightarrow>
       precio_actual (foldl asiento_paso a ops) = precio_base (foldl asiento_paso a ops))"
proof (induction ops arbitrary: a)
  case Nil
  then show ?case by simp
next
  case (Cons op ops)
  from Cons.prems have "\<not> reservado (asiento_paso a op) \<longrightarrow>
      precio_actual (asiento_paso a op) = precio_base (asiento_paso a op)"
    by (rule asiento_paso_inv)
  from Cons.IH [OF this] show ?case by simp
qed

text \<open>
  Claim C4. A seat that the constructor returns is not reserved and has its current price
  equal to its base price. After any sequence of \<open>reservar\<close> and \<open>cancelar_reserva\<close> calls,
  with any arguments, raising or not, a seat that is not reserved has its current price
  equal to its base price; and from a reserved state \<open>cancelar_reserva\<close> raises nothing
  and restores both.
\<close>

theorem precio_invariante:
  assumes "Asiento_init n f p = Inr a0"
  shows "\<not> reservado a0 \<and> precio_actual a0 = precio_base a0 \<and> PNum (precio_base a0) = p
     \<and> (\<not> reservado (foldl asiento_paso a0 ops) \<longrightarrow>
          precio_actual (foldl asiento_paso a0 ops) = precio_base (foldl asiento_paso a0 ops))
     \<and> (reservado (foldl asiento_paso a0 ops) \<longrightarrow>
          (\<exists>a'. Asiento_cancelar_reserva (foldl asiento_paso a0 ops) = (None, a')
             \<and> \<not> reservado a' \<and> precio_actual a' = precio_base a'))"
proof -
  from assms have i: "\<not> reservado a0 \<and> precio_actual a0 = precio_base a0 \<and> PNum (precio_base a0) = p"
    using Asiento_init_Inr by blast
  then have "\<not> reservado a0 \<longrightarrow> precio_actual a0 = precio_base a0" by simp
  then have "\<not> reservado (foldl asiento_paso a0 ops) \<longrightarrow>
          precio_actual (foldl asiento_paso a0 ops) = precio_base (foldl asiento_paso a0 ops)"
    by (rule foldl_paso_inv)
  with i show ?thesis by (simp add: Asiento_cancelar_reserva_def)
qed

theorem precio_invariante_witness:
  "Asiento_init (PNum (NInt 1)) (PNum (NInt 1)) (PNum (NFloat 10)) = Inr asiento_libre
   \<and> \<not> reservado (foldl asiento_paso asiento_libre
          [OpReservar (PNum (NBool True)) (PNum (NBool True)), OpCancelar])
   \<and> precio_actual (foldl asiento_paso asiento_libre
          [OpReservar (PNum (NBool True)) (PNum (NBool True)), OpCancelar]) = NFloat 10"
proof -
  have h: "Asiento_init (PNum (NInt 1)) (PNum (NInt 1)) (PNum (NFloat 10)) = Inr asiento_libre"
    by (simp add: Asiento_init_def asiento_libre_def)
  have r: "\<not> reservado (foldl asiento_paso asiento_libre
          [OpReservar (PNum (NBool True)) (PNum (NBool True)), OpCancelar])"
    by (simp add: reservar_def Asiento_cancelar_reserva_def asiento_libre_def)
  have b: "precio_base (foldl asiento_paso asiento_libre
          [OpReservar (PNum (NBool True)) (PNum (NBool True)), OpCancelar]) = NFloat 10"
    by (simp add: reservar_def Asiento_cancelar_reserva_def asiento_libre_def)
  from precio_invariante [OF h, of "[OpReservar (PNum (NBool True)) (PNum (NBool True)), OpCancelar]"]
    h r b show ?thesis by simp
qed

section \<open>Rooms: construction, the type checks and the frame of a reservation\<close>



text \<open>
  Claim C10. The number check accepts the boolean \<open>True\<close>: \<open>agregar_asiento(True, 1)\<close>, in a
  room that has no seat of number 1 in row 1, raises nothing and appends a seat whose
  number is \<open>True\<close>, which is equal to 1. The boolean check refuses the integer 1:
  \<open>reservar(1, 1)\<close> raises \<open>ValueError\<close> on every seat, reserved or not, and leaves it as it
  was.
\<close>

theorem asimetria_bool_numero:
  "validar_entrada (PNum (NBool True)) = Inr (NBool True)
   \<and> validar_tipo_booleano (PNum (NInt 1)) = Inl ValueError
   \<and> (0 < num_val (sala_precio_base s)
        \<and> \<not> list_ex (coincide (NBool True) (NInt 1)) (asientos s) \<longrightarrow>
       agregar_asiento s (PNum (NBool True)) (PNum (NInt 1))
         = (None, s\<lparr>asientos := asientos s
              @ [\<lparr>numero = NBool True, fila = NInt 1, reservado = False,
                   precio_base = sala_precio_base s, precio_actual = sala_precio_base s\<rparr>]\<rparr>))
   \<and> num_eq (NBool True) (NInt 1)
   \<and> reservar a (PNum (NInt 1)) (PNum (NInt 1)) = (Some ValueError, a)"
  by (simp add: agregar_asiento_def Asiento_init_def reservar_def num_eq_def)

theorem asimetria_bool_numero_witness:
  "0 < num_val (sala_precio_base sala_10)
   \<and> \<not> list_ex (coincide (NBool True) (NInt 1)) (asientos sala_10)
   \<and> agregar_asiento sala_10 (PNum (NBool True)) (PNum (NInt 1))
       = (None, sala_10\<lparr>asientos :=
            [\<lparr>numero = NBool True, fila = NInt 1, reservado = False,
              precio_base = NFloat 10, precio_actual = NFloat 10\<rparr>]\<rparr>)
   \<and> \<not> reservado asiento_libre
   \<and> reservar asiento_libre (PNum (NInt 1)) (PNum (NInt 1)) = (Some ValueError, asiento_libre)"
  using asimetria_bool_numero [of sala_10 asiento_libre]
  by (simp add: sala_10_def asiento_libre_def)

lemma buscar_bucle_Some:
  "buscar_bucle n f xs = Some i \<Longrightarrow>
     i < length xs \<and> coincide n f (xs ! i) \<and> (\<forall>j<i. \<not> coincide n f (xs ! j))"
proof (induction xs arbitrary: i)
  case Nil
  then show ?case by simp
next
  case (Cons a xs)
  show ?case
  proof (cases "coincide n f a")
    case True
    with Cons.prems show ?thesis by simp
  next
    case False
    with Cons.prems obtain k where k: "buscar_bucle n f xs = Some k" "i = Suc k"
      by (auto split: option.splits)
    from Cons.IH [OF k(1)] False k(2) show ?thesis
      by (auto simp: less_Suc_eq_0_disj)
  qed
qed

lemma buscar_bucle_None:
  "buscar_bucle n f xs = None \<Longrightarrow> \<not> list_ex (coincide n f) xs"
  by (induction xs) (auto split: if_splits option.splits)

lemma buscar_asiento_Inr:
  "buscar_asiento s n f = Inr i \<Longrightarrow>
     \<exists>nn ff. validar_entrada n = Inr nn \<and> validar_entrada f = Inr ff
        \<and> i < length (asientos s) \<and> coincide nn ff (asientos s ! i)"
  by (auto simp: buscar_asiento_def split: sum.splits option.splits dest: buscar_bucle_Some)

lemma cambia_solo_update:
  assumes "i < length (asientos s)"
    and "numero a' = numero (asientos s ! i)" and "fila a' = fila (asientos s ! i)"
    and "validar_entrada n = Inr nn" and "validar_entrada f = Inr ff"
    and "coincide nn ff (asientos s ! i)"
    and "r \<noteq> None \<longrightarrow> a' = asientos s ! i"
  shows "cambia_solo n f r s (s\<lparr>asientos := (asientos s)[i := a']\<rparr>)"
  using assms
  by (auto simp: cambia_solo_def map_update nth_list_update list_update_same_conv
       intro!: nth_equalityI)

lemma cambia_solo_refl: "cambia_solo n f r s s"
  by (simp add: cambia_solo_def)

lemma reservar_asiento_cambia_solo:
  assumes a: "reservar_asiento s n f m d = (r, s')"
  shows "cambia_solo n f r s s'"
proof (cases "buscar_asiento s n f")
  case (Inl e)
  with a show ?thesis
    by (auto simp: reservar_asiento_def cambia_solo_refl split: sum.splits)
next
  case (Inr i)
  from buscar_asiento_Inr [OF Inr] obtain nn ff where
    h: "validar_entrada n = Inr nn" "validar_entrada f = Inr ff"
       "i < length (asientos s)" "coincide nn ff (asientos s ! i)" by blast
  show ?thesis
  proof (cases "validar_tipo_booleano m")
    case (Inl e)
    with a show ?thesis by (auto simp: reservar_asiento_def cambia_solo_refl)
  next
    case mb: (Inr mb)
    show ?thesis
    proof (cases "validar_tipo_booleano d")
      case (Inl e)
      with a mb show ?thesis by (auto simp: reservar_asiento_def cambia_solo_refl)
    next
      case db: (Inr db)
      obtain r0 a' where ra: "reservar (asientos s ! i) m d = (r0, a')" by force
      with a mb db Inr have e: "r = r0" "s' = s\<lparr>asientos := (asientos s)[i := a']\<rparr>"
        by (auto simp: reservar_asiento_def)
      from reservar_campos [OF ra] h e show ?thesis
        by (auto intro!: cambia_solo_update)
    qed
  qed
qed

lemma cancelar_reserva_cambia_solo:
  assumes a: "SalaCine_cancelar_reserva s n f = (r, s')"
  shows "cambia_solo n f r s s'"
proof (cases "buscar_asiento s n f")
  case (Inl e)
  with a show ?thesis
    by (auto simp: SalaCine_cancelar_reserva_def cambia_solo_refl)
next
  case (Inr i)
  from buscar_asiento_Inr [OF Inr] obtain nn ff where
    h: "validar_entrada n = Inr nn" "validar_entrada f = Inr ff"
       "i < length (asientos s)" "coincide nn ff (asientos s ! i)" by blast
  obtain r0 a' where ra: "Asiento_cancelar_reserva (asientos s ! i) = (r0, a')" by force
  with a Inr have e: "r = r0" "s' = s\<lparr>asientos := (asientos s)[i := a']\<rparr>"
    by (auto simp: SalaCine_cancelar_reserva_def)
  from cancelar_campos [OF ra] h e show ?thesis
    by (auto intro!: cambia_solo_update)
qed

text \<open>
  Claim C9. \<open>reservar_asiento\<close> and \<open>cancelar_reserva\<close> of a room leave the base price and
  the discounts of the room, the length of the seat list and the number and row at every
  position as they were. If any seat differs after the call, it is a seat whose number and
  row equal the arguments and every other seat is as before. When the call raises, the
  room is exactly as before.
\<close>

theorem reserva_marco:
  assumes "reservar_asiento s n f m d = (r, s') \<or> SalaCine_cancelar_reserva s n f = (r, s')"
  shows "cambia_solo n f r s s'"
  using assms reservar_asiento_cambia_solo cancelar_reserva_cambia_solo by blast

theorem reserva_marco_witness:
  "(reservar_asiento sala_main (PNum (NInt 1)) (PNum (NInt 1)) (PNum (NBool True)) (PNum (NBool True))
      = (None, sala_main_reservada)
    \<or> SalaCine_cancelar_reserva sala_main (PNum (NInt 1)) (PNum (NInt 1))
      = (None, sala_main_reservada))
   \<and> cambia_solo (PNum (NInt 1)) (PNum (NInt 1)) None sala_main sala_main_reservada"
proof -
  have h: "reservar_asiento sala_main (PNum (NInt 1)) (PNum (NInt 1))
             (PNum (NBool True)) (PNum (NBool True)) = (None, sala_main_reservada)"
    by (simp add: reservar_asiento_def buscar_asiento_def coincide_def num_eq_def reservar_def
          calcular_precio_def num_add_def num_sub_def num_mul_def
          sala_main_def sala_main_reservada_def sala_10_def asiento_libre_def)
  from reserva_marco [OF disjI1 [OF h]] h show ?thesis by simp
qed

section \<open>Evaluation of the examples\<close>

text \<open>
  The definitions that the simplifier unfolds to compute the examples.
\<close>

lemmas eval_texto = str_nat.simps digit_char_def char_of_eq_iff str_int_def nl_def
  format_2f_def round_half_even_def float_str_entero_def
  strip_def is_space_def is_digit_def digit_val_def valor_digitos_def py_int_def

lemmas eval_sala = sala_10_def asiento_libre_def asiento_dos_def sala_main_def
  sala_main_reservada_def

section \<open>Uniqueness of seats\<close>

text \<open>
  \<open>agregar_asiento\<close> with accepted arguments either raises \<open>AsientoDuplicadoError\<close>,
  when a seat of that number and row exists, or appends the new seat at the end. So
  adding, reserving and cancelling keep the seats of a room distinct by row and number.
\<close>

lemma cambia_solo_sin_duplicados:
  "cambia_solo n f r s s' \<Longrightarrow> sin_duplicados (asientos s) \<Longrightarrow> sin_duplicados (asientos s')"
proof -
  assume c: "cambia_solo n f r s s'" and d: "sin_duplicados (asientos s)"
  from c have m: "map numero (asientos s') = map numero (asientos s)"
    "map fila (asientos s') = map fila (asientos s)" by (simp_all add: cambia_solo_def)
  have z: "map (\<lambda>a. (num_val (fila a), num_val (numero a))) xs
      = map (\<lambda>(x, y). (num_val x, num_val y)) (zip (map fila xs) (map numero xs))" for xs
    by (induction xs) simp_all
  have "map (\<lambda>a. (num_val (fila a), num_val (numero a))) (asientos s')
      = map (\<lambda>a. (num_val (fila a), num_val (numero a))) (asientos s)"
    by (simp only: z m)
  with d show ?thesis by (simp add: sin_duplicados_def)
qed

lemma agregar_asiento_casos:
  assumes "validar_entrada n = Inr nn" and "validar_entrada f = Inr ff"
    and "0 < num_val (sala_precio_base s)"
  shows "agregar_asiento s n f =
     (if list_ex (coincide nn ff) (asientos s) then (Some AsientoDuplicadoError, s)
      else (None, s\<lparr>asientos := asientos s
              @ [\<lparr>numero = nn, fila = ff, reservado = False,
                   precio_base = sala_precio_base s, precio_actual = sala_precio_base s\<rparr>]\<rparr>))"
  using assms by (simp add: agregar_asiento_def Asiento_init_def)

lemma agregar_asiento_sin_duplicados:
  assumes "sin_duplicados (asientos s)"
  shows "sin_duplicados (asientos (snd (agregar_asiento s n f)))"
proof (cases "validar_entrada n")
  case (Inl e)
  with assms show ?thesis by (simp add: agregar_asiento_def)
next
  case n: (Inr nn)
  show ?thesis
  proof (cases "validar_entrada f")
    case (Inl e)
    with n assms show ?thesis by (simp add: agregar_asiento_def)
  next
    case f: (Inr ff)
    show ?thesis
    proof (cases "list_ex (coincide nn ff) (asientos s)")
      case True
      with n f assms show ?thesis by (simp add: agregar_asiento_def)
    next
      case False
      show ?thesis
      proof (cases "Asiento_init n f (PNum (sala_precio_base s))")
        case (Inl e)
        with n f False assms show ?thesis by (simp add: agregar_asiento_def)
      next
        case (Inr nuevo)
        from Asiento_init_Inr [OF Inr] n f have i: "numero nuevo = nn" "fila nuevo = ff"
          by (cases n; cases f; auto split: if_splits)+
        from False have "(num_val ff, num_val nn)
            \<notin> set (map (\<lambda>a. (num_val (fila a), num_val (numero a))) (asientos s))"
          by (auto simp: list_ex_iff coincide_def num_eq_def)
        with assms i n f False Inr show ?thesis
          by (simp add: agregar_asiento_def sin_duplicados_def)
      qed
    qed
  qed
qed

lemma sala_paso_sin_duplicados:
  assumes "sin_duplicados (asientos s)" and "\<not> es_carga op"
  shows "sin_duplicados (asientos (sala_paso s op))"
proof (cases op)
  case (OpAgregar n f)
  with assms show ?thesis by (simp add: agregar_asiento_sin_duplicados)
next
  case (OpReservarAsiento n f m d)
  have "cambia_solo n f (fst (reservar_asiento s n f m d)) s (snd (reservar_asiento s n f m d))"
    by (rule reservar_asiento_cambia_solo) simp
  from cambia_solo_sin_duplicados [OF this assms(1)] OpReservarAsiento show ?thesis by simp
next
  case (OpCancelarReserva n f)
  have "cambia_solo n f (fst (SalaCine_cancelar_reserva s n f)) s (snd (SalaCine_cancelar_reserva s n f))"
    by (rule cancelar_reserva_cambia_solo) simp
  from cambia_solo_sin_duplicados [OF this assms(1)] OpCancelarReserva show ?thesis by simp
next
  case (OpCargar c)
  with assms show ?thesis by simp
qed

theorem sin_duplicados_sin_carga:
  assumes "sin_duplicados (asientos s)" and "list_all (\<lambda>op. \<not> es_carga op) ops"
  shows "sin_duplicados (asientos (foldl sala_paso s ops))"
  using assms
proof (induction ops arbitrary: s)
  case Nil
  then show ?case by simp
next
  case (Cons op ops)
  then have "sin_duplicados (asientos (sala_paso s op))"
    by (simp add: sala_paso_sin_duplicados)
  with Cons show ?case by simp
qed

text \<open>
  Claim C3. No two seats of a room have the same row and number, and \<open>agregar_asiento\<close>
  keeps it so: it raises \<open>AsientoDuplicadoError\<close> for a seat that exists. \<open>cargar_estado\<close>
  appends without that check: in the room of \<open>main\<close> with the seat of number 1 in row 1,
  a second \<open>agregar_asiento(1, 1)\<close> is refused, but saving the room and loading the file
  into the same room, as \<open>main\<close> does, raises nothing and leaves two seats of number 1 in
  row 1.
\<close>

theorem carga_duplica:
  "agregar_asiento sala_10 (PNum (NInt 1)) (PNum (NInt 1))
     = (None, sala_10\<lparr>asientos := [asiento_libre]\<rparr>)
   \<and> sin_duplicados (asientos (sala_10\<lparr>asientos := [asiento_libre]\<rparr>))
   \<and> agregar_asiento (sala_10\<lparr>asientos := [asiento_libre]\<rparr>) (PNum (NInt 1)) (PNum (NInt 1))
     = (Some AsientoDuplicadoError, sala_10\<lparr>asientos := [asiento_libre]\<rparr>)
   \<and> guardar_estado float_str_entero (sala_10\<lparr>asientos := [asiento_libre]\<rparr>)
     = ''1,1,Disponible,10.00'' @ [nl]
   \<and> cargar_estado (sala_10\<lparr>asientos := [asiento_libre]\<rparr>) (''1,1,Disponible,10.00'' @ [nl])
     = (None, sala_10\<lparr>asientos := [asiento_libre, asiento_libre]\<rparr>)
   \<and> \<not> sin_duplicados (asientos (sala_10\<lparr>asientos := [asiento_libre, asiento_libre]\<rparr>))"
  by (simp add: agregar_asiento_def Asiento_init_def coincide_def num_eq_def sin_duplicados_def
        guardar_estado_def cargar_estado_def cargar_linea_def eval_sala eval_texto)

section \<open>Text: digits, lines and fields\<close>

lemma digit_char_props:
  assumes "d < 10"
  shows "is_digit (digit_char d)" "digit_val (digit_char d) = d"
    "digit_char d \<noteq> CHR ''_''"
  using assms
  by (simp_all add: digit_char_def is_digit_def digit_val_def char_of_eq_iff take_bit_eq_mod)

lemma is_digit_props:
  assumes "is_digit c"
  shows "c \<noteq> nl" "c \<noteq> CHR '',''" "\<not> is_space c" "c \<noteq> CHR ''_''" "c \<noteq> CHR ''-''"
    "c \<noteq> CHR ''+''" "c \<noteq> CHR ''.''"
  using assms by (auto simp: is_digit_def nl_def is_space_def Let_def)

lemma str_nat_digits: "list_all is_digit (str_nat n)"
proof (induction n rule: str_nat.induct)
  case (1 n)
  show ?case
  proof (cases "n < 10")
    case True
    then show ?thesis by (subst str_nat.simps) (simp add: digit_char_props)
  next
    case False
    with 1 show ?thesis by (subst str_nat.simps) (simp add: digit_char_props)
  qed
qed

lemma str_nat_nonempty: "str_nat n \<noteq> []"
  by (subst str_nat.simps) simp

lemma valor_digitos_snoc:
  "c \<noteq> CHR ''_'' \<Longrightarrow> valor_digitos (ds @ [c]) = 10 * valor_digitos ds + digit_val c"
  by (simp add: valor_digitos_def)

lemma valor_digitos_str_nat: "valor_digitos (str_nat n) = n"
proof (induction n rule: str_nat.induct)
  case (1 n)
  show ?case
  proof (cases "n < 10")
    case True
    then show ?thesis
      by (subst str_nat.simps) (simp add: valor_digitos_def digit_char_props)
  next
    case False
    have u: "digit_char (n mod 10) \<noteq> CHR ''_''"
      by (simp add: digit_char_props)
    from False 1 show ?thesis
      by (subst str_nat.simps) (simp add: valor_digitos_snoc [OF u] digit_char_props)
  qed
qed

lemma digitos_ok_digits: "ds \<noteq> [] \<Longrightarrow> list_all is_digit ds \<Longrightarrow> digitos_ok ds"
  by (induction ds rule: digitos_ok.induct) (auto dest: is_digit_props)

lemma strip_id:
  assumes "s \<noteq> []" "\<not> is_space (hd s)" "\<not> is_space (last s)"
  shows "strip s = s"
proof -
  from assms have a: "dropWhile is_space s = s" by (cases s) simp_all
  from assms have "rev s \<noteq> []" "\<not> is_space (hd (rev s))" by (simp_all add: hd_rev)
  then have "dropWhile is_space (rev s) = rev s" by (cases "rev s") simp_all
  with a show ?thesis by (simp add: strip_def)
qed

lemma strip_nl:
  assumes "s \<noteq> []" "\<not> is_space (hd s)" "\<not> is_space (last s)"
  shows "strip (s @ [nl]) = s"
proof -
  from assms have a: "dropWhile is_space (s @ [nl]) = s @ [nl]" by (cases s) simp_all
  have n: "is_space nl" by (simp add: is_space_def nl_def)
  from assms have "rev s \<noteq> []" "\<not> is_space (hd (rev s))" by (simp_all add: hd_rev)
  then have "dropWhile is_space (rev s) = rev s" by (cases "rev s") simp_all
  with a n show ?thesis by (simp add: strip_def)
qed

lemma str_nat_hd_last:
  "is_digit (hd (str_nat n))" "is_digit (last (str_nat n))"
  using str_nat_digits [of n] str_nat_nonempty [of n]
  by (cases "str_nat n"; simp add: list_all_iff)+

lemma py_int_str_int: "py_int (str_int i) = Inr i"
proof (cases "i < 0")
  case True
  have s: "strip (CHR ''-'' # str_nat (nat (- i))) = CHR ''-'' # str_nat (nat (- i))"
    using str_nat_hd_last(2) [of "nat (- i)"] str_nat_nonempty [of "nat (- i)"]
    by (intro strip_id) (auto simp: is_space_def dest: is_digit_props)
  from True show ?thesis
    by (simp add: py_int_def str_int_def s digitos_ok_digits str_nat_digits str_nat_nonempty
          valor_digitos_str_nat)
next
  case False
  have s: "strip (str_nat (nat i)) = str_nat (nat i)"
    using str_nat_hd_last [of "nat i"] str_nat_nonempty [of "nat i"]
    by (intro strip_id) (auto dest: is_digit_props)
  obtain c r where cr: "str_nat (nat i) = c # r"
    using str_nat_nonempty [of "nat i"] by (cases "str_nat (nat i)") auto
  with str_nat_hd_last(1) [of "nat i"] have "is_digit c" by simp
  then have "c \<noteq> CHR ''-'' \<and> c \<noteq> CHR ''+''" by (auto dest: is_digit_props)
  moreover from s cr have "strip (c # r) = c # r" by simp
  ultimately show ?thesis
    using False cr digitos_ok_digits [OF str_nat_nonempty str_nat_digits, of "nat i"]
      valor_digitos_str_nat [of "nat i"]
    by (simp add: py_int_def str_int_def)
qed

lemma lineas_linea:
  "nl \<notin> set body \<Longrightarrow> lineas (body @ nl # rest) = (body @ [nl]) # lineas rest"
  by (induction body) auto

lemma split_coma_sin: "CHR '','' \<notin> set a \<Longrightarrow> split_coma a = [a]"
  by (induction a) auto

lemma split_coma_campo:
  "CHR '','' \<notin> set a \<Longrightarrow> split_coma (a @ CHR '','' # rest) = a # split_coma rest"
  by (induction a) auto

lemma format_2f_shape:
  "\<exists>ent d1 d2. format_2f x = ent @ ''.'' @ [d1, d2] \<and> is_digit d1 \<and> is_digit d2
      \<and> ent \<noteq> [] \<and> list_all (\<lambda>c. is_digit c \<or> c = CHR ''-'') ent"
proof -
  define q where "q = nat (round_half_even (\<bar>x\<bar> * 100))"
  define ent where "ent = (if x < 0 then [CHR ''-''] else []) @ str_nat (q div 100)"
  have d: "list_all is_digit (str_nat (q div 100))" by (rule str_nat_digits)
  have "format_2f x = ent @ ''.'' @ [digit_char (q div 10 mod 10), digit_char (q mod 10)]"
    by (simp add: format_2f_def q_def ent_def Let_def)
  moreover have "is_digit (digit_char (q div 10 mod 10))" "is_digit (digit_char (q mod 10))"
    by (simp_all add: digit_char_props)
  moreover have "ent \<noteq> []" by (simp add: ent_def str_nat_nonempty)
  moreover from d have "list_all (\<lambda>c. is_digit c \<or> c = CHR ''-'') ent"
    by (auto simp: ent_def list_all_iff)
  ultimately show ?thesis by blast
qed

lemma signo_digitos_sin:
  "list_all (\<lambda>c. is_digit c \<or> c = CHR ''-'') s \<Longrightarrow> nl \<notin> set s \<and> CHR '','' \<notin> set s"
proof (induction s)
  case Nil
  then show ?case by simp
next
  case (Cons c s)
  then have "is_digit c \<or> c = CHR ''-''" by simp
  then have "c \<noteq> nl \<and> c \<noteq> CHR '',''"
    using is_digit_props(1,2) [of c] by (auto simp: nl_def)
  with Cons show ?case by auto
qed

lemma format_2f_chars:
  "nl \<notin> set (format_2f x)" "CHR '','' \<notin> set (format_2f x)"
  "format_2f x \<noteq> []" "is_digit (last (format_2f x))"
proof -
  obtain ent d1 d2 where e: "format_2f x = ent @ ''.'' @ [d1, d2]" "is_digit d1" "is_digit d2"
    "list_all (\<lambda>c. is_digit c \<or> c = CHR ''-'') ent"
    using format_2f_shape [of x] by blast
  have n: "nl \<noteq> CHR ''.''" by (simp add: nl_def)
  from signo_digitos_sin [OF e(4)] is_digit_props(1) [OF e(2)] is_digit_props(1) [OF e(3)] n
  show "nl \<notin> set (format_2f x)" by (auto simp: e(1))
  from signo_digitos_sin [OF e(4)] is_digit_props(2) [OF e(2)] is_digit_props(2) [OF e(3)]
  show "CHR '','' \<notin> set (format_2f x)" by (auto simp: e(1))
  from e show "format_2f x \<noteq> []" by simp
  from e show "is_digit (last (format_2f x))" by simp
qed

lemma str_int_chars:
  "nl \<notin> set (str_int i)" "CHR '','' \<notin> set (str_int i)"
proof -
  have "list_all (\<lambda>c. is_digit c \<or> c = CHR ''-'') (str_int i)"
    using str_nat_digits [of "nat i"] str_nat_digits [of "nat (- i)"]
    by (simp add: str_int_def list_all_iff)
  from signo_digitos_sin [OF this]
  show "nl \<notin> set (str_int i)" "CHR '','' \<notin> set (str_int i)" by simp_all
qed

lemma str_number_nl:
  assumes "\<forall>x. nl \<notin> set (float_str x)"
  shows "nl \<notin> set (str_number float_str n)"
proof (cases n)
  case (NBool b)
  then show ?thesis by (simp add: nl_def)
next
  case (NInt i)
  then show ?thesis by (simp add: str_int_chars)
next
  case (NFloat x)
  with assms show ?thesis by simp
qed

lemma linea_de_nl:
  assumes "\<forall>x. nl \<notin> set (float_str x)"
  shows "\<exists>body. linea_de float_str a = body @ [nl] \<and> nl \<notin> set body"
proof -
  define body where "body = str_number float_str (fila a) @ '','' @ str_number float_str (numero a)
       @ '','' @ (if reservado a then ''Reservado'' else ''Disponible'') @ '',''
       @ format_2f (num_val (precio_actual a))"
  have e: "nl \<notin> set (if reservado a then ''Reservado'' else ''Disponible'')"
    by (simp add: nl_def)
  have c: "nl \<noteq> CHR '',''" by (simp add: nl_def)
  have "nl \<notin> set body"
    using str_number_nl [OF assms, of "fila a"] str_number_nl [OF assms, of "numero a"]
      format_2f_chars(1) [of "num_val (precio_actual a)"] e c
    unfolding body_def by simp
  moreover have "linea_de float_str a = body @ [nl]"
    by (simp add: linea_de_def body_def)
  ultimately show ?thesis by blast
qed

lemma lineas_concat:
  assumes "\<forall>l \<in> set ls. \<exists>body. l = body @ [nl] \<and> nl \<notin> set body"
  shows "lineas (concat ls) = ls"
  using assms
proof (induction ls)
  case Nil
  then show ?case by simp
next
  case (Cons l ls)
  then obtain body where b: "l = body @ [nl]" "nl \<notin> set body" by auto
  from Cons have "lineas (concat ls) = ls" by simp
  with b show ?case by (simp add: lineas_linea)
qed

lemma guardar_bucle_concat:
  "guardar_bucle float_str xs f = f @ concat (map (linea_de float_str) xs)"
  by (induction xs arbitrary: f) (simp_all add: linea_de_def Let_def)

lemma guardar_estado_concat:
  "guardar_estado float_str s = concat (map (linea_de float_str) (asientos s))"
  by (simp add: guardar_estado_def guardar_bucle_concat)


section \<open>The saved file\<close>





section \<open>Loading a saved file\<close>

lemma cargar_linea_entero:
  assumes "asiento_entero a"
  shows "cargar_linea t (linea_de float_str a)
       = (case Asiento_init (PNum (numero a)) (PNum (fila a)) (PNum (sala_precio_base t)) of
            Inl e \<Rightarrow> (Some e, t)
          | Inr nuevo \<Rightarrow>
              (case (if reservado a then reservar nuevo (PNum (NBool False)) (PNum (NBool False))
                     else (None, nuevo)) of
                 (Some e, nuevo') \<Rightarrow> (Some e, t)
               | (None, nuevo') \<Rightarrow> (None, t\<lparr>asientos := asientos t @ [nuevo']\<rparr>)))"
proof -
  from assms obtain i j where ij: "numero a = NInt i" "fila a = NInt j" "0 < i" "0 < j"
    by (cases "numero a"; cases "fila a") (auto simp: asiento_entero_def)
  define E where "E = (if reservado a then ''Reservado'' else ''Disponible'')"
  define P where "P = format_2f (num_val (precio_actual a))"
  define body where "body = str_int j @ '','' @ str_int i @ '','' @ E @ '','' @ P"
  have l: "linea_de float_str a = body @ [nl]"
    by (simp add: linea_de_def body_def E_def P_def ij)
  have hj: "str_int j = str_nat (nat j)" using ij by (simp add: str_int_def)
  obtain c r where cr: "str_nat (nat j) = c # r"
    using str_nat_nonempty [of "nat j"] by (cases "str_nat (nat j)") auto
  with str_nat_hd_last(1) [of "nat j"] have "is_digit c" by simp
  then have "\<not> is_space c" by (rule is_digit_props)
  then have hd: "\<not> is_space (hd body)" by (simp add: body_def hj cr)
  have ne: "body \<noteq> []" by (simp add: body_def)
  have "P \<noteq> []" "is_digit (last P)" by (simp_all add: P_def format_2f_chars)
  then have "last body = last P" "\<not> is_space (last P)"
    by (simp_all add: body_def is_digit_props)
  then have la: "\<not> is_space (last body)" by simp
  have s: "strip (linea_de float_str a) = body"
    unfolding l by (rule strip_nl [OF ne hd la])
  have cE: "CHR '','' \<notin> set E" by (simp add: E_def)
  have cP: "CHR '','' \<notin> set P" by (simp add: P_def format_2f_chars)
  have "split_coma P = [P]" by (rule split_coma_sin [OF cP])
  then have "split_coma (E @ CHR '','' # P) = [E, P]"
    by (simp add: split_coma_campo [OF cE])
  then have "split_coma (str_int i @ CHR '','' # E @ CHR '','' # P) = [str_int i, E, P]"
    by (simp add: split_coma_campo [OF str_int_chars(2)])
  then have "split_coma (str_int j @ CHR '','' # str_int i @ CHR '','' # E @ CHR '','' # P)
      = [str_int j, str_int i, E, P]"
    by (simp add: split_coma_campo [OF str_int_chars(2)])
  then have sp: "split_coma body = [str_int j, str_int i, E, P]"
    by (simp add: body_def)
  have r: "(E = ''Reservado'') = reservado a" by (simp add: E_def)
  show ?thesis
    by (simp add: cargar_linea_def s sp py_int_str_int ij r split: sum.splits)
qed

lemma linea_de_entero_indep:
  "asiento_entero a \<Longrightarrow> linea_de float_str a = linea_de (\<lambda>x. []) a"
  by (cases "numero a"; cases "fila a") (simp_all add: asiento_entero_def linea_de_def)

lemma cargar_linea_recargado:
  assumes "asiento_entero a" and "0 < num_val (sala_precio_base t)"
  shows "cargar_linea t (linea_de float_str a)
           = (None, t\<lparr>asientos := asientos t @ [recargado (sala_precio_base t) a]\<rparr>)"
proof -
  from assms(1) have p: "0 < num_val (numero a)" "0 < num_val (fila a)"
    by (simp_all add: asiento_entero_def)
  with assms(2) show ?thesis
    by (simp add: cargar_linea_entero [OF assms(1)] Asiento_init_def reservar_def recargado_def)
qed

lemma cargar_bucle_recargado:
  assumes "list_all asiento_entero xs" and "0 < num_val (sala_precio_base t)"
  shows "cargar_bucle t (map (linea_de float_str) xs)
           = (None, t\<lparr>asientos := asientos t @ map (recargado (sala_precio_base t)) xs\<rparr>)"
  using assms
proof (induction xs arbitrary: t)
  case Nil
  then show ?case by simp
next
  case (Cons a xs)
  define t' where "t' = t\<lparr>asientos := asientos t @ [recargado (sala_precio_base t) a]\<rparr>"
  from Cons.prems have a: "asiento_entero a" and xs: "list_all asiento_entero xs" by simp_all
  have p: "0 < num_val (sala_precio_base t')" using Cons.prems(2) by (simp add: t'_def)
  have "cargar_linea t (linea_de float_str a) = (None, t')"
    unfolding t'_def by (rule cargar_linea_recargado [OF a Cons.prems(2)])
  then have "cargar_bucle t (map (linea_de float_str) (a # xs))
      = cargar_bucle t' (map (linea_de float_str) xs)" by simp
  also have "\<dots> = (None, t'\<lparr>asientos := asientos t' @ map (recargado (sala_precio_base t')) xs\<rparr>)"
    by (rule Cons.IH [OF xs p])
  finally show ?case by (simp add: t'_def)
qed

lemma lineas_guardar_entero:
  assumes "list_all asiento_entero (asientos s)"
  shows "lineas (guardar_estado float_str s) = map (linea_de float_str) (asientos s)"
proof -
  have e: "map (linea_de float_str) (asientos s) = map (linea_de (\<lambda>x. [])) (asientos s)"
    using assms by (simp add: list_all_iff linea_de_entero_indep [of _ float_str])
  show ?thesis
    unfolding guardar_estado_concat e
    by (rule lineas_concat) (auto simp: linea_de_nl)
qed

lemma recargado_campos:
  "numero (recargado p a) = numero a \<and> fila (recargado p a) = fila a
   \<and> reservado (recargado p a) = reservado a \<and> precio_base (recargado p a) = p
   \<and> num_eq (precio_actual (recargado p a)) p"
  by (simp add: recargado_def num_eq_def calcular_precio_val)

text \<open>
  Claim C2, for rooms whose seats have integer rows and numbers. Loading the file saved
  from such a room into a room of positive base price raises nothing and appends one seat
  for each saved seat, in order, with the saved number, row and reservation status. The
  saved price is not used: the loaded seat has the base price of the loading room, and its
  current price equals that base price, reserved or not; so a saved current price below
  that base price is not the loaded one.
\<close>

theorem recarga_con_perdida:
  assumes "list_all asiento_entero (asientos s)" and "0 < num_val (sala_precio_base t)"
  shows "cargar_estado t (guardar_estado float_str s)
           = (None, t\<lparr>asientos := asientos t @ map (recargado (sala_precio_base t)) (asientos s)\<rparr>)
     \<and> numero (recargado (sala_precio_base t) a) = numero a
     \<and> fila (recargado (sala_precio_base t) a) = fila a
     \<and> reservado (recargado (sala_precio_base t) a) = reservado a
     \<and> precio_base (recargado (sala_precio_base t) a) = sala_precio_base t
     \<and> num_eq (precio_actual (recargado (sala_precio_base t) a)) (sala_precio_base t)
     \<and> (num_val (precio_actual a) < num_val (sala_precio_base t) \<longrightarrow>
          \<not> num_eq (precio_actual (recargado (sala_precio_base t) a)) (precio_actual a))"
proof -
  have "cargar_estado t (guardar_estado float_str s)
      = cargar_bucle t (map (linea_de float_str) (asientos s))"
    by (simp add: cargar_estado_def lineas_guardar_entero [OF assms(1)])
  also have "\<dots> = (None, t\<lparr>asientos := asientos t @ map (recargado (sala_precio_base t)) (asientos s)\<rparr>)"
    by (rule cargar_bucle_recargado [OF assms])
  finally show ?thesis
    using recargado_campos [of "sala_precio_base t" a] by (auto simp: num_eq_def)
qed

theorem recarga_con_perdida_witness:
  "list_all asiento_entero (asientos sala_main_reservada)
   \<and> 0 < num_val (sala_precio_base sala_10)
   \<and> cargar_estado sala_10 (guardar_estado float_str_entero sala_main_reservada)
       = (None, sala_10\<lparr>asientos := [asiento_libre\<lparr>reservado := True\<rparr>, asiento_dos]\<rparr>)
   \<and> num_val (precio_actual (asiento_libre\<lparr>precio_actual := NFloat 5, reservado := True\<rparr>))
       < num_val (sala_precio_base sala_10)"
proof -
  have h1: "list_all asiento_entero (asientos sala_main_reservada)"
    by (simp add: asiento_entero_def eval_sala)
  have h2: "0 < num_val (sala_precio_base sala_10)" by (simp add: eval_sala)
  have r: "map (recargado (sala_precio_base sala_10)) (asientos sala_main_reservada)
      = [asiento_libre\<lparr>reservado := True\<rparr>, asiento_dos]"
    by (simp add: recargado_def calcular_precio_def num_sub_def num_mul_def eval_sala)
  from recarga_con_perdida [OF h1 h2, of float_str_entero
      "asiento_libre\<lparr>precio_actual := NFloat 5, reservado := True\<rparr>"] h1 h2 r
  show ?thesis by (simp add: eval_sala)
qed

text \<open>
  Without the restriction to integers the file may not load at all: the seat that
  \<open>agregar_asiento(True, 1)\<close> creates is saved with the number \<open>True\<close>, which \<open>int\<close> refuses,
  so loading raises \<open>ValueError\<close> and the fresh room stays empty.
\<close>

theorem recarga_bool_counterexample:
  "agregar_asiento sala_10 (PNum (NBool True)) (PNum (NInt 1))
     = (None, sala_10\<lparr>asientos := [asiento_true]\<rparr>)
   \<and> reservar_asiento (sala_10\<lparr>asientos := [asiento_true]\<rparr>) (PNum (NBool True)) (PNum (NInt 1))
        (PNum (NBool True)) (PNum (NBool True))
     = (None, sala_10\<lparr>asientos := [asiento_true\<lparr>precio_actual := NFloat 5, reservado := True\<rparr>]\<rparr>)
   \<and> guardar_estado float_str_entero
        (sala_10\<lparr>asientos := [asiento_true\<lparr>precio_actual := NFloat 5, reservado := True\<rparr>]\<rparr>)
     = ''1,True,Reservado,5.00'' @ [nl]
   \<and> cargar_estado sala_10 (''1,True,Reservado,5.00'' @ [nl]) = (Some ValueError, sala_10)
   \<and> asientos sala_10 = []"
  by (simp add: agregar_asiento_def reservar_asiento_def buscar_asiento_def
        Asiento_init_def coincide_def num_eq_def reservar_def
        calcular_precio_def num_add_def num_sub_def num_mul_def asiento_true_def
        guardar_estado_def cargar_estado_def cargar_linea_def eval_sala eval_texto)

end
